theory Spec2Isabelle
  imports Complex_Main
begin

section \<open>The arithmetic of \<^verbatim>\<open>double\<close>\<close>

text \<open>
  Every quantity of the two simulations is a C++ \<^verbatim>\<open>double\<close>. A \<open>dbl\<close> is either a
  finite value or one of the three special values of IEEE 754. The finite values are
  the real numbers: an operation on finite operands gives the exact real result, so
  rounding, overflow and underflow are outside this model, and there is one zero (the
  positive one). What the model keeps of IEEE 754 is everything the programs can
  observe without rounding: a division by zero gives an infinity or NaN instead of
  failing, NaN propagates through every operation, every comparison with NaN is
  false, and \<^verbatim>\<open>std::isfinite\<close> tells the finite values from the others.
\<close>

datatype dbl = Fin real | PInf | NInf | NaN

fun isfinite :: "dbl \<Rightarrow> bool" where
  "isfinite (Fin a) = True"
| "isfinite PInf = False"
| "isfinite NInf = False"
| "isfinite NaN = False"

text \<open>The sign of an infinite product or quotient; a zero counts as positive.\<close>

fun signed_inf :: "bool \<Rightarrow> dbl" where
  "signed_inf True = NInf"
| "signed_inf False = PInf"

fun negative :: "dbl \<Rightarrow> bool" where
  "negative (Fin a) = (a < 0)"
| "negative NInf = True"
| "negative v = False"

instantiation dbl :: "{plus, minus, uminus, times, inverse, ord}"
begin

fun uminus_dbl :: "dbl \<Rightarrow> dbl" where
  "uminus_dbl (Fin a) = Fin (- a)"
| "uminus_dbl PInf = NInf"
| "uminus_dbl NInf = PInf"
| "uminus_dbl NaN = NaN"

fun plus_dbl :: "dbl \<Rightarrow> dbl \<Rightarrow> dbl" where
  "plus_dbl (Fin a) (Fin b) = Fin (a + b)"
| "plus_dbl NaN v = NaN"
| "plus_dbl u NaN = NaN"
| "plus_dbl PInf NInf = NaN"
| "plus_dbl NInf PInf = NaN"
| "plus_dbl PInf v = PInf"
| "plus_dbl NInf v = NInf"
| "plus_dbl (Fin a) v = v"

definition minus_dbl :: "dbl \<Rightarrow> dbl \<Rightarrow> dbl" where
  "minus_dbl u v = u + (- v)"

fun times_dbl :: "dbl \<Rightarrow> dbl \<Rightarrow> dbl" where
  "times_dbl (Fin a) (Fin b) = Fin (a * b)"
| "times_dbl NaN v = NaN"
| "times_dbl u NaN = NaN"
| "times_dbl (Fin a) v = (if a = 0 then NaN else signed_inf ((a < 0) \<noteq> negative v))"
| "times_dbl u (Fin b) = (if b = 0 then NaN else signed_inf (negative u \<noteq> (b < 0)))"
| "times_dbl u v = signed_inf (negative u \<noteq> negative v)"

fun divide_dbl :: "dbl \<Rightarrow> dbl \<Rightarrow> dbl" where
  "divide_dbl (Fin a) (Fin b) =
     (if b = 0 then (if a = 0 then NaN else signed_inf (a < 0)) else Fin (a / b))"
| "divide_dbl NaN v = NaN"
| "divide_dbl u NaN = NaN"
| "divide_dbl (Fin a) v = Fin 0"
| "divide_dbl u (Fin b) = signed_inf (negative u \<noteq> (b < 0))"
| "divide_dbl u v = NaN"

definition inverse_dbl :: "dbl \<Rightarrow> dbl" where
  "inverse_dbl v = divide (Fin 1) v"

fun less_eq_dbl :: "dbl \<Rightarrow> dbl \<Rightarrow> bool" where
  "less_eq_dbl (Fin a) (Fin b) = (a \<le> b)"
| "less_eq_dbl NaN v = False"
| "less_eq_dbl u NaN = False"
| "less_eq_dbl NInf v = True"
| "less_eq_dbl u PInf = True"
| "less_eq_dbl u v = False"

fun less_dbl :: "dbl \<Rightarrow> dbl \<Rightarrow> bool" where
  "less_dbl (Fin a) (Fin b) = (a < b)"
| "less_dbl NaN v = False"
| "less_dbl u NaN = False"
| "less_dbl PInf v = False"
| "less_dbl u NInf = False"
| "less_dbl u v = True"

instance ..

end

text \<open>
  The operator \<^verbatim>\<open>==\<close> of C++: NaN is equal to nothing, not even to itself.
\<close>

fun deq :: "dbl \<Rightarrow> dbl \<Rightarrow> bool" where
  "deq NaN v = False"
| "deq u NaN = False"
| "deq u v = (u = v)"

text \<open>\<^verbatim>\<open>std::sqrt\<close>, \<^verbatim>\<open>std::cos\<close>, \<^verbatim>\<open>std::pow\<close> with a whole exponent, and \<^verbatim>\<open>std::atan2\<close>.\<close>

fun dsqrt :: "dbl \<Rightarrow> dbl" where
  "dsqrt (Fin a) = (if a < 0 then NaN else Fin (sqrt a))"
| "dsqrt PInf = PInf"
| "dsqrt v = NaN"

fun dcos :: "dbl \<Rightarrow> dbl" where
  "dcos (Fin a) = Fin (cos a)"
| "dcos v = NaN"

fun dpow :: "dbl \<Rightarrow> nat \<Rightarrow> dbl" where
  "dpow v 0 = Fin 1"
| "dpow (Fin a) k = Fin (a ^ k)"
| "dpow PInf k = PInf"
| "dpow NInf k = (if odd k then NInf else PInf)"
| "dpow NaN k = NaN"

definition atan2_real :: "real \<Rightarrow> real \<Rightarrow> real" where
  "atan2_real b a =
     (if 0 < a then arctan (b / a)
      else if a < 0 then (if 0 \<le> b then arctan (b / a) + pi else arctan (b / a) - pi)
      else if 0 < b then pi / 2
      else if b < 0 then - (pi / 2)
      else 0)"

fun datan2 :: "dbl \<Rightarrow> dbl \<Rightarrow> dbl" where
  "datan2 (Fin b) (Fin a) = Fin (atan2_real b a)"
| "datan2 NaN v = NaN"
| "datan2 u NaN = NaN"
| "datan2 (Fin b) PInf = Fin 0"
| "datan2 (Fin b) NInf = Fin (if b < 0 then - pi else pi)"
| "datan2 PInf (Fin a) = Fin (pi / 2)"
| "datan2 NInf (Fin a) = Fin (- (pi / 2))"
| "datan2 PInf PInf = Fin (pi / 4)"
| "datan2 PInf NInf = Fin (3 * pi / 4)"
| "datan2 NInf PInf = Fin (- (pi / 4))"
| "datan2 NInf NInf = Fin (- (3 * pi / 4))"

section \<open>The box: class \<^verbatim>\<open>Cajas\<close> of Esfera.hpp\<close>

text \<open>
  The fields of \<^verbatim>\<open>Cajas\<close> carry the suffix \<open>_c\<close>: the bounds, the reported
  pressure \<^verbatim>\<open>p\<close>, the number of impacts \<^verbatim>\<open>n\<close> (a \<^verbatim>\<open>double\<close> in the source)
  and the running sum \<^verbatim>\<open>pn\<close>.
\<close>

record Cajas =
  xmin_c :: dbl
  xmax_c :: dbl
  ymin_c :: dbl
  ymax_c :: dbl
  p_c :: dbl
  n_c :: dbl
  pn_c :: dbl

definition Getxmin :: "Cajas \<Rightarrow> dbl" where
  "Getxmin caja = xmin_c caja"

definition Getxmax :: "Cajas \<Rightarrow> dbl" where
  "Getxmax caja = xmax_c caja"

text \<open>The two accessors of the y bounds return the x bounds, as the source has them.\<close>

definition Getymin :: "Cajas \<Rightarrow> dbl" where
  "Getymin caja = xmin_c caja"

definition Getymax :: "Cajas \<Rightarrow> dbl" where
  "Getymax caja = xmax_c caja"

definition Getp :: "Cajas \<Rightarrow> dbl" where
  "Getp caja = p_c caja"

definition inicio_caja :: "dbl \<Rightarrow> dbl \<Rightarrow> dbl \<Rightarrow> dbl \<Rightarrow> Cajas \<Rightarrow> Cajas" where
  "inicio_caja x1 x2 y1 y2 caja =
     caja\<lparr>xmin_c := x1, xmax_c := x2, ymin_c := y1, ymax_c := y2\<rparr>"

definition actualizarPresion :: "Cajas \<Rightarrow> Cajas" where
  "actualizarPresion caja = caja\<lparr>p_c := Fin 0, pn_c := Fin 0, n_c := Fin 0\<rparr>"

definition calcularPresionN :: "dbl \<Rightarrow> Cajas \<Rightarrow> Cajas" where
  "calcularPresionN mv2 caja =
     caja\<lparr>pn_c := pn_c caja + mv2 / Fin 3, n_c := n_c caja + Fin 1\<rparr>"

definition calcularPresion :: "Cajas \<Rightarrow> Cajas" where
  "calcularPresion caja = caja\<lparr>p_c := pn_c caja / n_c caja\<rparr>"

section \<open>The particles: class \<^verbatim>\<open>Esfera\<close> of Esfera.hpp\<close>

text \<open>
  The fields of \<^verbatim>\<open>Esfera\<close> carry the suffix \<open>_e\<close>. A member function that
  changes the object returns the changed object; one that changes two objects
  returns the pair.
\<close>

record Esfera =
  m_e :: dbl
  x_e :: dbl
  y_e :: dbl
  vx_e :: dbl
  vy_e :: dbl
  theta_e :: dbl
  R_e :: dbl

definition Getx :: "Esfera \<Rightarrow> dbl" where
  "Getx e = x_e e"

definition Gety :: "Esfera \<Rightarrow> dbl" where
  "Gety e = y_e e"

definition Getv :: "Esfera \<Rightarrow> dbl" where
  "Getv e = dsqrt (vx_e e * vx_e e + vy_e e * vy_e e)"

definition actualizarAngulo :: "Esfera \<Rightarrow> Esfera" where
  "actualizarAngulo e = e\<lparr>theta_e := datan2 (vy_e e) (vx_e e)\<rparr>"

definition inicio_esfera ::
  "dbl \<Rightarrow> dbl \<Rightarrow> dbl \<Rightarrow> dbl \<Rightarrow> dbl \<Rightarrow> dbl \<Rightarrow> Esfera \<Rightarrow> Esfera" where
  "inicio_esfera m0 x0 y0 vx0 vy0 R0 e =
     actualizarAngulo (e\<lparr>m_e := m0, x_e := x0, y_e := y0, vx_e := vx0, vy_e := vy0, R_e := R0\<rparr>)"

definition muevase :: "dbl \<Rightarrow> Esfera \<Rightarrow> Esfera" where
  "muevase t e = e\<lparr>x_e := x_e e + vx_e e * t, y_e := y_e e + vy_e e * t\<rparr>"

text \<open>
  \<^verbatim>\<open>rebotePared\<close> is two conditionals in a row, the first on x and the second on y;
  \<open>rebote_x\<close> and \<open>rebote_y\<close> are these two statements.
\<close>

definition rebote_x :: "Esfera \<times> Cajas \<Rightarrow> Esfera \<times> Cajas" where
  "rebote_x ec =
     (let e = fst ec; caja = snd ec in
      if x_e e - Getxmin caja \<le> R_e e \<or> Getxmax caja - x_e e \<le> R_e e
      then (let e' = actualizarAngulo (e\<lparr>vx_e := - vx_e e\<rparr>) in
            (e', calcularPresionN (m_e e' * (vx_e e' * vx_e e' + vy_e e' * vy_e e')) caja))
      else (e, caja))"

definition rebote_y :: "Esfera \<times> Cajas \<Rightarrow> Esfera \<times> Cajas" where
  "rebote_y ec =
     (let e = fst ec; caja = snd ec in
      if y_e e - Getymin caja \<le> R_e e \<or> Getymax caja - y_e e \<le> R_e e
      then (let e' = actualizarAngulo (e\<lparr>vy_e := - vy_e e\<rparr>) in
            (e', calcularPresionN (m_e e' * (vx_e e' * vx_e e' + vy_e e' * vy_e e')) caja))
      else (e, caja))"

definition rebotePared :: "Esfera \<Rightarrow> Cajas \<Rightarrow> Esfera \<times> Cajas" where
  "rebotePared e caja = rebote_y (rebote_x (e, caja))"

definition colision :: "Esfera \<Rightarrow> Esfera \<Rightarrow> Esfera \<times> Esfera" where
  "colision e otra =
     (let dx = x_e otra - x_e e;
          dy = y_e otra - y_e e;
          dist2 = dx * dx + dy * dy;
          Rsum = R_e e + R_e otra
      in if dist2 \<le> Rsum * Rsum then
           (let dist = dsqrt dist2 in
            if deq dist (Fin 0) then (e, otra)
            else
              (let nx = dx / dist;
                   ny = dy / dist;
                   vn1 = vx_e e * nx + vy_e e * ny;
                   vn2 = vx_e otra * nx + vy_e otra * ny;
                   vn1_new = vn2;
                   vn2_new = vn1
               in (actualizarAngulo
                     (e\<lparr>vx_e := vx_e e + (vn1_new - vn1) * nx,
                        vy_e := vy_e e + (vn1_new - vn1) * ny\<rparr>),
                   actualizarAngulo
                     (otra\<lparr>vx_e := vx_e otra + (vn2_new - vn2) * nx,
                           vy_e := vy_e otra + (vn2_new - vn2) * ny\<rparr>))))
         else (e, otra))"

section \<open>The simulation loop of main.cpp\<close>

text \<open>
  The vector \<^verbatim>\<open>esferas\<close> is a list. \<open>colisionar i j\<close> is the call
  \<^verbatim>\<open>esferas[i].colision(esferas[j])\<close>, which the loops make for \<open>i < j < n\<close> only, so
  the two objects are distinct. \<open>colisiones_de i\<close> is the inner loop over \<open>j\<close>.
\<close>

definition colisionar :: "nat \<Rightarrow> nat \<Rightarrow> Esfera list \<Rightarrow> Esfera list" where
  "colisionar i j es =
     (let ab = colision (es ! i) (es ! j) in es[i := fst ab, j := snd ab])"

definition colisiones_de :: "nat \<Rightarrow> Esfera list \<Rightarrow> Esfera list" where
  "colisiones_de i es = fold (colisionar i) [i + 1 ..< length es] es"

text \<open>
  The body of the loop over \<open>i\<close>: the collisions of particle \<open>i\<close> with the later
  particles, its rebound and its move. \<open>paso\<close> is one time step from the reset of
  the pressure to \<^verbatim>\<open>calcularPresion\<close>; the output to files and to gnuplot is left out.
\<close>

definition paso_esfera :: "dbl \<Rightarrow> nat \<Rightarrow> Esfera list \<times> Cajas \<Rightarrow> Esfera list \<times> Cajas" where
  "paso_esfera dt i s =
     (let es = colisiones_de i (fst s);
          ec = rebotePared (es ! i) (snd s)
      in (es[i := muevase dt (fst ec)], snd ec))"

definition paso :: "dbl \<Rightarrow> Esfera list \<times> Cajas \<Rightarrow> Esfera list \<times> Cajas" where
  "paso dt s =
     (let s' = fold (paso_esfera dt) [0 ..< length (fst s)] (fst s, actualizarPresion (snd s))
      in (fst s', calcularPresion (snd s')))"


text \<open>
  The total kinetic energy as the loop computes it, \<^verbatim>\<open>energia_total += 0.5 * m0 * v * v\<close>,
  for the common mass \<open>m0\<close> of the particles.
\<close>

definition energia_total :: "dbl \<Rightarrow> Esfera list \<Rightarrow> dbl" where
  "energia_total m0 es = fold (\<lambda>e acc. acc + Fin (1 / 2) * m0 * Getv e * Getv e) es (Fin 0)"

section \<open>The coupled oscillators: OsciladorDuffing.h\<close>

text \<open>
  The fields of \<^verbatim>\<open>OsciladorDuffing\<close> carry the suffix \<open>_o\<close>. The vectors are lists;
  \<^verbatim>\<open>push_back\<close> appends at the end.
\<close>

record Oscilador =
  alfa_o :: dbl
  beta_o :: dbl
  gamma_o :: dbl
  omega_o :: dbl
  k_o :: dbl
  m_o :: "dbl list"
  delta_o :: "dbl list"
  t_o :: "dbl list"
  x1_o :: "dbl list"
  x2_o :: "dbl list"
  y1_o :: "dbl list"
  y2_o :: "dbl list"

text \<open>
  The constructor leaves the five vectors empty. \<^verbatim>\<open>inicializar\<close> appends the times
  \<open>t0, t0 + dt, \<dots>\<close> up to \<open>tf\<close> to \<^verbatim>\<open>t\<close> and sets the four state vectors to the
  initial state. Its loop \<^verbatim>\<open>for (double ti = t0; ti <= tf; ti += dt)\<close> does not end
  for every input (\<open>dt = 0\<close>, say): \<open>tiempos\<close> is \<open>None\<close> where it runs forever.
\<close>

definition OsciladorDuffing ::
  "dbl \<Rightarrow> dbl \<Rightarrow> dbl \<Rightarrow> dbl \<Rightarrow> dbl \<Rightarrow> dbl list \<Rightarrow> dbl list \<Rightarrow> Oscilador" where
  "OsciladorDuffing alfa beta gamma omega k m delta =
     \<lparr>alfa_o = alfa, beta_o = beta, gamma_o = gamma, omega_o = omega, k_o = k,
      m_o = m, delta_o = delta, t_o = [], x1_o = [], x2_o = [], y1_o = [], y2_o = []\<rparr>"

partial_function (option) tiempos :: "dbl \<Rightarrow> dbl \<Rightarrow> dbl \<Rightarrow> dbl list \<Rightarrow> dbl list option" where
  "tiempos ti tf dt t = (if ti \<le> tf then tiempos (ti + dt) tf dt (t @ [ti]) else Some t)"

definition inicializar ::
  "dbl \<Rightarrow> dbl \<Rightarrow> dbl \<Rightarrow> dbl \<Rightarrow> dbl \<Rightarrow> dbl \<Rightarrow> dbl \<Rightarrow> Oscilador \<Rightarrow> Oscilador option" where
  "inicializar t0 tf dt x1_0 x2_0 y1_0 y2_0 osc =
     (case tiempos t0 tf dt (t_o osc) of
        None \<Rightarrow> None
      | Some t \<Rightarrow> Some (osc\<lparr>t_o := t, x1_o := [x1_0], x2_o := [x2_0], y1_o := [y1_0], y2_o := [y2_0]\<rparr>))"

definition f1 :: "Oscilador \<Rightarrow> dbl \<Rightarrow> dbl \<Rightarrow> dbl \<Rightarrow> dbl \<Rightarrow> dbl \<Rightarrow> dbl" where
  "f1 osc t x1 x2 y1 y2 =
     (- (y1 * delta_o osc ! 0 + m_o osc ! 0 * alfa_o osc * x1 + beta_o osc * dpow x1 3 +
         k_o osc * (x1 - x2) + gamma_o osc * dcos (omega_o osc * t))) / m_o osc ! 0"

definition f2 :: "Oscilador \<Rightarrow> dbl \<Rightarrow> dbl \<Rightarrow> dbl \<Rightarrow> dbl \<Rightarrow> dbl \<Rightarrow> dbl" where
  "f2 osc t x1 x2 y1 y2 =
     (- (y2 * delta_o osc ! 1 + m_o osc ! 1 * alfa_o osc * x2 + beta_o osc * dpow x2 3 +
         k_o osc * (x2 - x1))) / m_o osc ! 1"

section \<open>The integrator: IntegradorRK4.h\<close>

text \<open>
  One pass of the body of the loop of \<^verbatim>\<open>integrar\<close>, up to the four \<^verbatim>\<open>push_back\<close>:
  the entries of the arrays \<^verbatim>\<open>k1, k2, l1, l2\<close> are the variables \<open>k1_0 \<dots> l2_3\<close>.
\<close>

definition paso_rk4 :: "nat \<Rightarrow> Oscilador \<Rightarrow> Oscilador" where
  "paso_rk4 i osc =
     (let t = t_o osc; x1 = x1_o osc; x2 = x2_o osc; y1 = y1_o osc; y2 = y2_o osc;
          h = t ! (i + 1) - t ! i;
          k1_0 = h * y1 ! i;
          k2_0 = h * y2 ! i;
          k1_1 = h * (y1 ! i + k1_0 / Fin 2);
          k2_1 = h * (y2 ! i + k2_0 / Fin 2);
          k1_2 = h * (y1 ! i + k1_1 / Fin 2);
          k2_2 = h * (y2 ! i + k2_1 / Fin 2);
          k1_3 = h * (y1 ! i + k1_2);
          k2_3 = h * (y2 ! i + k2_2);
          l1_0 = h * f1 osc (t ! i) (x1 ! i) (x2 ! i) (y1 ! i) (y2 ! i);
          l2_0 = h * f2 osc (t ! i) (x1 ! i) (x2 ! i) (y1 ! i) (y2 ! i);
          l1_1 = h * f1 osc (t ! i + h / Fin 2) (x1 ! i + k1_0 / Fin 2) (x2 ! i + k2_0 / Fin 2)
                       (y1 ! i + l1_0 / Fin 2) (y2 ! i + l2_0 / Fin 2);
          l2_1 = h * f2 osc (t ! i + h / Fin 2) (x1 ! i + k1_0 / Fin 2) (x2 ! i + k2_0 / Fin 2)
                       (y1 ! i + l1_0 / Fin 2) (y2 ! i + l2_0 / Fin 2);
          l1_2 = h * f1 osc (t ! i + h / Fin 2) (x1 ! i + k1_1 / Fin 2) (x2 ! i + k2_1 / Fin 2)
                       (y1 ! i + l1_1 / Fin 2) (y2 ! i + l2_1 / Fin 2);
          l2_2 = h * f2 osc (t ! i + h / Fin 2) (x1 ! i + k1_1 / Fin 2) (x2 ! i + k2_1 / Fin 2)
                       (y1 ! i + l1_1 / Fin 2) (y2 ! i + l2_1 / Fin 2);
          l1_3 = h * f1 osc (t ! i + h) (x1 ! i + k1_2) (x2 ! i + k2_2)
                       (y1 ! i + l1_2) (y2 ! i + l2_2);
          l2_3 = h * f2 osc (t ! i + h) (x1 ! i + k1_2) (x2 ! i + k2_2)
                       (y1 ! i + l1_2) (y2 ! i + l2_2)
      in osc\<lparr>x1_o := x1 @ [x1 ! i + (k1_0 + Fin 2 * k1_1 + Fin 2 * k1_2 + k1_3) / Fin 6],
             x2_o := x2 @ [x2 ! i + (k2_0 + Fin 2 * k2_1 + Fin 2 * k2_2 + k2_3) / Fin 6],
             y1_o := y1 @ [y1 ! i + (l1_0 + Fin 2 * l1_1 + Fin 2 * l1_2 + l1_3) / Fin 6],
             y2_o := y2 @ [y2 ! i + (l2_0 + Fin 2 * l2_1 + Fin 2 * l2_2 + l2_3) / Fin 6]\<rparr>)"

text \<open>
  The body reads the vectors with \<^verbatim>\<open>operator[]\<close>, which does not check its index.
  \<open>en_rango i osc\<close> says that every read of pass \<open>i\<close> is inside its vector; where it
  is not, the source has no defined behaviour and the model answers \<open>FueraDeRango\<close>.
  After \<^verbatim>\<open>inicializar\<close>, and with the two masses and two frictions that main gives,
  every read is in range.
\<close>

datatype rk_error = FueraDeRango

definition en_rango :: "nat \<Rightarrow> Oscilador \<Rightarrow> bool" where
  "en_rango i osc \<longleftrightarrow>
     i < length (x1_o osc) \<and> i < length (x2_o osc) \<and>
     i < length (y1_o osc) \<and> i < length (y2_o osc) \<and>
     1 < length (m_o osc) \<and> 1 < length (delta_o osc)"

definition no_finito :: "Oscilador \<Rightarrow> bool" where
  "no_finito osc \<longleftrightarrow>
     \<not> isfinite (last (x1_o osc)) \<or> \<not> isfinite (last (y1_o osc)) \<or>
     \<not> isfinite (last (x2_o osc)) \<or> \<not> isfinite (last (y2_o osc))"

text \<open>
  The loop \<^verbatim>\<open>for (size_t i = 0; i + 1 < t.size(); i++)\<close> from pass \<open>i\<close> on. The
  result is the oscillator and the message written to \<^verbatim>\<open>std::cerr\<close>, if any:
  \<open>Some i\<close> stands for \<^verbatim>\<open>NaN detectado en paso i=\<close> followed by \<open>i\<close>.
\<close>

function integrar_desde :: "nat \<Rightarrow> Oscilador \<Rightarrow> rk_error + Oscilador \<times> nat option" where
  "integrar_desde i osc =
     (if i + 1 < length (t_o osc) then
        (if en_rango i osc then
           (let osc' = paso_rk4 i osc in
            if no_finito osc' then Inr (osc', Some i)
            else integrar_desde (i + 1) osc')
         else Inl FueraDeRango)
      else Inr (osc, None))"
  by pat_completeness auto
termination
  by (relation "measure (\<lambda>(i, osc). length (t_o osc) - i)") (auto simp: paso_rk4_def Let_def)

definition integrar :: "Oscilador \<Rightarrow> rk_error + Oscilador \<times> nat option" where
  "integrar osc = integrar_desde 0 osc"

section \<open>Notions the statements and the proofs use\<close>













text \<open>
  The state number \<open>j\<close> of the trajectory is finite; the four state vectors have one
  common length, at least one (as after \<^verbatim>\<open>inicializar\<close>), and there are two masses
  and two frictions.
\<close>

definition estado_finito :: "Oscilador \<Rightarrow> nat \<Rightarrow> bool" where
  "estado_finito osc j \<longleftrightarrow>
     isfinite (x1_o osc ! j) \<and> isfinite (y1_o osc ! j) \<and>
     isfinite (x2_o osc ! j) \<and> isfinite (y2_o osc ! j)"

definition bien_formado :: "Oscilador \<Rightarrow> bool" where
  "bien_formado osc \<longleftrightarrow>
     0 < length (x1_o osc) \<and>
     length (x2_o osc) = length (x1_o osc) \<and>
     length (y1_o osc) = length (x1_o osc) \<and>
     length (y2_o osc) = length (x1_o osc) \<and>
     1 < length (m_o osc) \<and> 1 < length (delta_o osc)"

text \<open>
  The classical Runge-Kutta method of order four for the first-order system
  \<open>x1' = y1\<close>, \<open>x2' = y2\<close>, \<open>y1' = f1\<close>, \<open>y2' = f2\<close>, written from its textbook
  definition on the state \<open>u = (x1, x2, y1, y2)\<close>: \<open>K1 = h F(t, u)\<close>,
  \<open>K2 = h F(t + h/2, u + K1/2)\<close>, \<open>K3 = h F(t + h/2, u + K2/2)\<close>,
  \<open>K4 = h F(t + h, u + K3)\<close>, and the new state \<open>u + (K1 + 2 K2 + 2 K3 + K4) / 6\<close>.
  This is the specification \<^verbatim>\<open>integrar\<close> is compared with, not a translation of it.
\<close>

type_synonym estado = "dbl \<times> dbl \<times> dbl \<times> dbl"

definition derivada :: "Oscilador \<Rightarrow> dbl \<Rightarrow> estado \<Rightarrow> estado" where
  "derivada osc t u =
     (case u of (x1, x2, y1, y2) \<Rightarrow> (y1, y2, f1 osc t x1 x2 y1 y2, f2 osc t x1 x2 y1 y2))"

definition vmas :: "estado \<Rightarrow> estado \<Rightarrow> estado" where
  "vmas u v =
     (case u of (a, b, c, d) \<Rightarrow> case v of (a', b', c', d') \<Rightarrow> (a + a', b + b', c + c', d + d'))"

definition vpor :: "dbl \<Rightarrow> estado \<Rightarrow> estado" where
  "vpor h u = (case u of (a, b, c, d) \<Rightarrow> (h * a, h * b, h * c, h * d))"

definition ventre :: "estado \<Rightarrow> dbl \<Rightarrow> estado" where
  "ventre u r = (case u of (a, b, c, d) \<Rightarrow> (a / r, b / r, c / r, d / r))"

definition rk4_clasico :: "Oscilador \<Rightarrow> dbl \<Rightarrow> dbl \<Rightarrow> estado \<Rightarrow> estado" where
  "rk4_clasico osc h t u =
     (let K1 = vpor h (derivada osc t u);
          K2 = vpor h (derivada osc (t + h / Fin 2) (vmas u (ventre K1 (Fin 2))));
          K3 = vpor h (derivada osc (t + h / Fin 2) (vmas u (ventre K2 (Fin 2))));
          K4 = vpor h (derivada osc (t + h) (vmas u K3))
      in vmas u (ventre (vmas (vmas (vmas K1 (vpor (Fin 2) K2)) (vpor (Fin 2) K3)) K4) (Fin 6)))"

subsection \<open>Concrete inputs\<close>

definition esfera_cero :: Esfera where
  "esfera_cero =
     \<lparr>m_e = Fin 0, x_e = Fin 0, y_e = Fin 0, vx_e = Fin 0, vy_e = Fin 0,
      theta_e = Fin 0, R_e = Fin 0\<rparr>"

text \<open>A box of side 10 whose last step recorded one impact of \<^verbatim>\<open>mv2 = 1\<close>.\<close>

definition caja_ejemplo :: Cajas where
  "caja_ejemplo =
     \<lparr>xmin_c = Fin (- 5), xmax_c = Fin 5, ymin_c = Fin (- 5), ymax_c = Fin 5,
      p_c = Fin 0, n_c = Fin 1, pn_c = Fin (1 / 3)\<rparr>"

text \<open>A particle at the centre of that box, far from every wall.\<close>

definition esfera_centro :: Esfera where
  "esfera_centro =
     inicio_esfera (Fin 1) (Fin 0) (Fin 0) (Fin 1) (Fin 0) (Fin (1 / 10)) esfera_cero"

text \<open>
  A box that is not square, \<open>-5..5\<close> by \<open>-1..1\<close>, and a particle of radius \<open>0.1\<close>
  at \<open>(0, 0.95)\<close> that moves up: its upper edge is past the upper wall.
\<close>

definition caja_rect :: Cajas where
  "caja_rect =
     actualizarPresion (inicio_caja (Fin (- 5)) (Fin 5) (Fin (- 1)) (Fin 1) caja_ejemplo)"

definition esfera_arriba :: Esfera where
  "esfera_arriba =
     inicio_esfera (Fin 1) (Fin 0) (Fin (19 / 20)) (Fin 0) (Fin 1) (Fin (1 / 10)) esfera_cero"

text \<open>
  Two particles of mass 1 and radius 1 in contact, their centres at distance 1 along
  the direction \<open>(3/5, 4/5)\<close>; the first moves along x, the second is at rest.
\<close>

definition esfera_a :: Esfera where
  "esfera_a = inicio_esfera (Fin 1) (Fin 0) (Fin 0) (Fin 1) (Fin 0) (Fin 1) esfera_cero"

definition esfera_b :: Esfera where
  "esfera_b =
     inicio_esfera (Fin 1) (Fin (3 / 5)) (Fin (4 / 5)) (Fin 0) (Fin 0) (Fin 1) esfera_cero"

text \<open>A particle far from \<open>esfera_a\<close>.\<close>

definition esfera_lejos :: Esfera where
  "esfera_lejos = inicio_esfera (Fin 1) (Fin 4) (Fin 0) (Fin 0) (Fin 1) (Fin 1) esfera_cero"

text \<open>
  An oscillator whose first mass is zero, so that \<open>f1\<close> divides by zero, on a grid
  of three times; and an oscillator under the constant force 1 (\<open>gamma = -1\<close>,
  \<open>omega = 0\<close>, unit masses, nothing else), at rest at the origin, on the grid
  \<open>[0, 1]\<close>: the state \<^verbatim>\<open>inicializar(0, 1, 1, 0, 0, 0, 0)\<close> builds.
\<close>

definition osc_masa_cero :: Oscilador where
  "osc_masa_cero =
     \<lparr>alfa_o = Fin 0, beta_o = Fin 0, gamma_o = Fin 1, omega_o = Fin 0, k_o = Fin 0,
      m_o = [Fin 0, Fin 1], delta_o = [Fin 0, Fin 0],
      t_o = [Fin 0, Fin 1, Fin 2],
      x1_o = [Fin 0], x2_o = [Fin 0], y1_o = [Fin 0], y2_o = [Fin 0]\<rparr>"

definition osc_acelerado :: Oscilador where
  "osc_acelerado =
     \<lparr>alfa_o = Fin 0, beta_o = Fin 0, gamma_o = Fin (- 1), omega_o = Fin 0, k_o = Fin 0,
      m_o = [Fin 1, Fin 1], delta_o = [Fin 0, Fin 0],
      t_o = [Fin 0, Fin 1],
      x1_o = [Fin 0], x2_o = [Fin 0], y1_o = [Fin 0], y2_o = [Fin 0]\<rparr>"

section \<open>Arithmetic on finite values\<close>

lemma Fin_minus [simp]: "Fin a - Fin b = Fin (a - b)"
  by (simp add: minus_dbl_def)

lemma dpow_Fin [simp]: "dpow (Fin a) k = Fin (a ^ k)"
  by (cases k) simp_all



lemmas ejemplos_defs =
  esfera_cero_def caja_ejemplo_def esfera_centro_def caja_rect_def esfera_arriba_def
  esfera_a_def esfera_b_def esfera_lejos_def inicio_esfera_def inicio_caja_def actualizarAngulo_def

section \<open>The pressure of the box\<close>




text \<open>
  Claim C3, as the code has it. \<^verbatim>\<open>calcularPresion\<close> has no guard: it stores the
  quotient \<open>pn / n\<close> whatever \<open>n\<close> is. After a reset and no impact the quotient is
  \<open>0 / 0\<close>, and the pressure it stores is NaN, neither the pressure before nor zero.
\<close>

theorem calcularPresion_sin_guarda:
  "Getp (calcularPresion caja) = pn_c caja / n_c caja \<and>
   Getp (calcularPresion (actualizarPresion caja)) = NaN"
  by (simp add: calcularPresion_def actualizarPresion_def Getp_def)

text \<open>
  The claim fails: a step in which the one particle touches no wall ends with the
  pressure NaN.
\<close>

theorem finalizar_sin_impactos_counterexample:
  "n_c (actualizarPresion caja_ejemplo) = Fin 0 \<and>
   \<not> isfinite (Getp (calcularPresion (actualizarPresion caja_ejemplo))) \<and>
   Getp (snd (paso (Fin (1 / 10)) ([esfera_centro], caja_ejemplo))) = NaN"
  by (simp add: ejemplos_defs actualizarPresion_def calcularPresion_def Getp_def paso_def
      paso_esfera_def colisiones_de_def rebotePared_def rebote_x_def rebote_y_def
      Getxmin_def Getxmax_def Getymin_def Getymax_def muevase_def Let_def)

text \<open>
  Claim C8, as the code has it. \<^verbatim>\<open>actualizarPresion\<close> sets three fields to zero: the
  running sum, the count of impacts and the reported pressure. So from the reset to
  the next \<^verbatim>\<open>calcularPresion\<close>, \<^verbatim>\<open>Getp\<close> returns zero. The bounds of the box stay.
\<close>

theorem actualizarPresion_efecto:
  "pn_c (actualizarPresion caja) = Fin 0 \<and>
   n_c (actualizarPresion caja) = Fin 0 \<and>
   Getp (actualizarPresion caja) = Fin 0 \<and>
   xmin_c (actualizarPresion caja) = xmin_c caja \<and>
   xmax_c (actualizarPresion caja) = xmax_c caja \<and>
   ymin_c (actualizarPresion caja) = ymin_c caja \<and>
   ymax_c (actualizarPresion caja) = ymax_c caja"
  by (simp add: actualizarPresion_def Getp_def)

text \<open>
  The claim fails: the pressure \<open>1/3\<close> that \<^verbatim>\<open>calcularPresion\<close> reported is gone
  after the reset.
\<close>

theorem Getp_tras_reinicio_counterexample:
  "Getp (calcularPresion caja_ejemplo) = Fin (1 / 3) \<and>
   Getp (actualizarPresion (calcularPresion caja_ejemplo)) \<noteq> Getp (calcularPresion caja_ejemplo)"
  by (simp add: caja_ejemplo_def calcularPresion_def actualizarPresion_def Getp_def)

section \<open>Rebounds\<close>

text \<open>
  Claim C5 fails on the code. In the box \<open>-5..5\<close> by \<open>-1..1\<close> the particle at
  \<open>(0, 0.95)\<close> with radius \<open>0.1\<close> is within its radius of the wall \<open>ymax = 1\<close>, and
  \<^verbatim>\<open>rebotePared\<close> leaves its velocity and the box as they are: \<^verbatim>\<open>Getymin\<close> and
  \<^verbatim>\<open>Getymax\<close> return the bounds of x, \<open>-5\<close> and \<open>5\<close>.
\<close>

theorem rebotePared_caja_rectangular:
  "ymax_c caja_rect - y_e esfera_arriba \<le> R_e esfera_arriba \<and>
   Getymax caja_rect = Fin 5 \<and> ymax_c caja_rect = Fin 1 \<and>
   vy_e (fst (rebotePared esfera_arriba caja_rect)) = vy_e esfera_arriba \<and>
   rebotePared esfera_arriba caja_rect = (esfera_arriba, caja_rect)"
  by (simp add: ejemplos_defs actualizarPresion_def
      rebotePared_def rebote_x_def rebote_y_def
      Getxmin_def Getxmax_def Getymin_def Getymax_def Let_def)


section \<open>Collisions of two particles\<close>
















section \<open>The pass of collisions\<close>

subsection \<open>One collision can be undone\<close>






subsection \<open>So can every sequence of collisions\<close>























section \<open>The integrator\<close>

declare integrar_desde.simps [simp del]

lemma osc_acelerado_inicializar:
  "inicializar (Fin 0) (Fin 1) (Fin 1) (Fin 0) (Fin 0) (Fin 0) (Fin 0)
     (OsciladorDuffing (Fin 0) (Fin 0) (Fin (- 1)) (Fin 0) (Fin 0) [Fin 1, Fin 1] [Fin 0, Fin 0]) =
   Some osc_acelerado"
  by (simp add: inicializar_def OsciladorDuffing_def tiempos.simps osc_acelerado_def)

lemma osc_masa_cero_inicializar:
  "inicializar (Fin 0) (Fin 2) (Fin 1) (Fin 0) (Fin 0) (Fin 0) (Fin 0)
     (OsciladorDuffing (Fin 0) (Fin 0) (Fin 1) (Fin 0) (Fin 0) [Fin 0, Fin 1] [Fin 0, Fin 0]) =
   Some osc_masa_cero"
  by (simp add: inicializar_def OsciladorDuffing_def tiempos.simps osc_masa_cero_def)

lemma inicializar_bien_formado:
  assumes "inicializar t0 tf dt x1_0 x2_0 y1_0 y2_0 osc = Some osc'"
    and "1 < length (m_o osc)" and "1 < length (delta_o osc)"
  shows "bien_formado osc'"
  using assms by (auto simp: inicializar_def bien_formado_def split: option.splits)

lemma paso_rk4_append:
  "\<exists>a b c d. paso_rk4 i osc =
     osc\<lparr>x1_o := x1_o osc @ [a], x2_o := x2_o osc @ [b],
         y1_o := y1_o osc @ [c], y2_o := y2_o osc @ [d]\<rparr>"
  unfolding paso_rk4_def Let_def by blast

lemma integrar_desde_prop:
  assumes "length (x1_o osc) = n" "length (x2_o osc) = n"
    "length (y1_o osc) = n" "length (y2_o osc) = n"
    "i < n" "1 < length (m_o osc)" "1 < length (delta_o osc)"
  shows "\<exists>osc' aviso. integrar_desde i osc = Inr (osc', aviso) \<and>
     n \<le> length (x1_o osc') \<and>
     take n (x1_o osc') = x1_o osc \<and> take n (x2_o osc') = x2_o osc \<and>
     take n (y1_o osc') = y1_o osc \<and> take n (y2_o osc') = y2_o osc \<and>
     (\<forall>j. n \<le> j \<and> j < length (x1_o osc') \<and> \<not> estado_finito osc' j \<longrightarrow>
        Suc j = length (x1_o osc') \<and> aviso = Some (i + (j - n))) \<and>
     (aviso \<noteq> None \<longrightarrow>
        n < length (x1_o osc') \<and> \<not> estado_finito osc' (length (x1_o osc') - 1))"
  using assms
proof (induction i osc arbitrary: n rule: integrar_desde.induct)
  case (1 i osc)
  have rango: "en_rango i osc"
    using "1.prems" by (simp add: en_rango_def)
  show ?case
  proof (cases "i + 1 < length (t_o osc)")
    case False
    then have "integrar_desde i osc = Inr (osc, None)"
      by (simp add: integrar_desde.simps)
    then show ?thesis using "1.prems" by simp
  next
    case True
    obtain a b c d where p: "paso_rk4 i osc =
       osc\<lparr>x1_o := x1_o osc @ [a], x2_o := x2_o osc @ [b],
           y1_o := y1_o osc @ [c], y2_o := y2_o osc @ [d]\<rparr>"
      using paso_rk4_append by blast
    let ?o = "paso_rk4 i osc"
    have len: "length (x1_o ?o) = Suc n" "length (x2_o ?o) = Suc n"
      "length (y1_o ?o) = Suc n" "length (y2_o ?o) = Suc n"
      "1 < length (m_o ?o)" "1 < length (delta_o ?o)"
      using "1.prems" by (simp_all add: p)
    have nth: "x1_o ?o ! n = a" "x2_o ?o ! n = b" "y1_o ?o ! n = c" "y2_o ?o ! n = d"
      using "1.prems" by (simp_all add: p nth_append)
    have nf: "no_finito ?o \<longleftrightarrow> \<not> estado_finito ?o n"
      by (auto simp add: no_finito_def estado_finito_def nth) (simp_all add: p)
    show ?thesis
    proof (cases "no_finito ?o")
      case True
      have "integrar_desde i osc = Inr (?o, Some i)"
        using \<open>i + 1 < length (t_o osc)\<close> rango True
        by (subst integrar_desde.simps) (simp add: Let_def)
      moreover have "\<forall>j. n \<le> j \<and> j < length (x1_o ?o) \<and> \<not> estado_finito ?o j \<longrightarrow>
        Suc j = length (x1_o ?o) \<and> Some i = Some (i + (j - n))"
        using len by auto
      moreover have "take n (x1_o ?o) = x1_o osc" "take n (x2_o ?o) = x2_o osc"
        "take n (y1_o ?o) = y1_o osc" "take n (y2_o ?o) = y2_o osc"
        using "1.prems" by (simp_all add: p)
      moreover have "\<not> estado_finito ?o (length (x1_o ?o) - 1)"
        using nf True len by simp
      ultimately show ?thesis using len by (intro exI [of _ ?o] exI [of _ "Some i"]) simp
    next
      case False
      have eq: "integrar_desde i osc = integrar_desde (i + 1) ?o"
        using \<open>i + 1 < length (t_o osc)\<close> rango False
        by (subst integrar_desde.simps) (simp add: Let_def)
      have "i + 1 < Suc n" using "1.prems" by simp
      from "1.IH" [OF \<open>i + 1 < length (t_o osc)\<close> rango refl False len(1-4) this len(5,6)]
      obtain osc' aviso where r: "integrar_desde (i + 1) ?o = Inr (osc', aviso)"
        "Suc n \<le> length (x1_o osc')"
        "take (Suc n) (x1_o osc') = x1_o ?o" "take (Suc n) (x2_o osc') = x2_o ?o"
        "take (Suc n) (y1_o osc') = y1_o ?o" "take (Suc n) (y2_o osc') = y2_o ?o"
        and fin: "\<forall>j. Suc n \<le> j \<and> j < length (x1_o osc') \<and> \<not> estado_finito osc' j \<longrightarrow>
           Suc j = length (x1_o osc') \<and> aviso = Some (i + 1 + (j - Suc n))"
        and av: "aviso \<noteq> None \<longrightarrow>
           Suc n < length (x1_o osc') \<and> \<not> estado_finito osc' (length (x1_o osc') - 1)"
        by blast
      have corta: "take n xs = take n (take (Suc n) xs)" for xs :: "dbl list"
        by (simp add: min_def)
      have tk: "take n (x1_o osc') = x1_o osc" "take n (x2_o osc') = x2_o osc"
        "take n (y1_o osc') = y1_o osc" "take n (y2_o osc') = y2_o osc"
        using "1.prems"
        by (simp_all add: corta [of "x1_o osc'"] corta [of "x2_o osc'"] corta [of "y1_o osc'"]
            corta [of "y2_o osc'"] r p del: take_take)
      have lee: "xs ! n = take (Suc n) xs ! n" for xs :: "dbl list"
        by simp
      have "estado_finito osc' n \<longleftrightarrow> estado_finito ?o n"
        unfolding estado_finito_def
        by (simp only: lee [of "x1_o osc'"] lee [of "x2_o osc'"] lee [of "y1_o osc'"]
            lee [of "y2_o osc'"] r)
      with nf False have en_n: "estado_finito osc' n"
        by simp
      have "\<forall>j. n \<le> j \<and> j < length (x1_o osc') \<and> \<not> estado_finito osc' j \<longrightarrow>
           Suc j = length (x1_o osc') \<and> aviso = Some (i + (j - n))"
      proof (intro allI impI)
        fix j assume j: "n \<le> j \<and> j < length (x1_o osc') \<and> \<not> estado_finito osc' j"
        with en_n have "j \<noteq> n" by auto
        with j have "Suc n \<le> j" by simp
        with fin j have "Suc j = length (x1_o osc') \<and> aviso = Some (i + 1 + (j - Suc n))"
          by blast
        moreover have "i + 1 + (j - Suc n) = i + (j - n)" using \<open>Suc n \<le> j\<close> by simp
        ultimately show "Suc j = length (x1_o osc') \<and> aviso = Some (i + (j - n))" by simp
      qed
      with r tk av show ?thesis unfolding eq by simp
    qed
  qed
qed


text \<open>
  Claim C9. On an oscillator whose state vectors have one common length, at least
  one, \<^verbatim>\<open>integrar\<close> returns, it only appends to the four vectors, and if a state it
  appended has a component that is not finite, then that state is the last one of
  the trajectory and the message names the pass that produced it; a message is
  written only when the last state is not finite.
\<close>

theorem integrar_se_detiene:
  assumes "bien_formado osc"
  shows "\<exists>osc' aviso. integrar osc = Inr (osc', aviso) \<and>
     take (length (x1_o osc)) (x1_o osc') = x1_o osc \<and>
     take (length (x1_o osc)) (x2_o osc') = x2_o osc \<and>
     take (length (x1_o osc)) (y1_o osc') = y1_o osc \<and>
     take (length (x1_o osc)) (y2_o osc') = y2_o osc \<and>
     (\<forall>j. length (x1_o osc) \<le> j \<and> j < length (x1_o osc') \<and> \<not> estado_finito osc' j \<longrightarrow>
        Suc j = length (x1_o osc') \<and> aviso = Some (j - length (x1_o osc))) \<and>
     (aviso \<noteq> None \<longrightarrow>
        length (x1_o osc) < length (x1_o osc') \<and>
        \<not> estado_finito osc' (length (x1_o osc') - 1))"
proof -
  from assms have len: "length (x1_o osc) = length (x1_o osc)"
    "length (x2_o osc) = length (x1_o osc)" "length (y1_o osc) = length (x1_o osc)"
    "length (y2_o osc) = length (x1_o osc)" "0 < length (x1_o osc)"
    "1 < length (m_o osc)" "1 < length (delta_o osc)"
    by (simp_all add: bien_formado_def)
  from integrar_desde_prop [OF len] show ?thesis
    unfolding integrar_def by fastforce
qed

lemma integrar_masa_cero:
  "integrar osc_masa_cero =
     Inr (osc_masa_cero\<lparr>x1_o := [Fin 0, Fin 0], x2_o := [Fin 0, Fin 0],
                        y1_o := [Fin 0, NaN], y2_o := [Fin 0, Fin 0]\<rparr>, Some 0)"
  by (simp add: integrar_def integrar_desde.simps paso_rk4_def f1_def f2_def en_rango_def
      no_finito_def Let_def osc_masa_cero_def)

theorem integrar_se_detiene_witness:
  "bien_formado osc_masa_cero \<and>
   (\<exists>osc'. integrar osc_masa_cero = Inr (osc', Some 0) \<and> length (t_o osc') = 3 \<and>
      length (x1_o osc') = 2 \<and> \<not> estado_finito osc' 1)"
proof -
  have h: "bien_formado osc_masa_cero"
    by (simp add: bien_formado_def osc_masa_cero_def)
  show ?thesis
    using h integrar_se_detiene [OF h]
    by (simp add: integrar_masa_cero estado_finito_def) (simp add: osc_masa_cero_def)
qed


text \<open>
  Claim C7 fails on the code. For the oscillator under the constant force 1, at rest
  at the origin, one step of length 1: \<^verbatim>\<open>integrar\<close> leaves \<open>x1\<close> at 0, the
  classical method gives \<open>x1 = 1/2\<close> (the exact solution \<open>t\<^sup>2 / 2\<close>). The stages
  \<^verbatim>\<open>k1[1], k1[2], k1[3]\<close> of the source add the increments of the position,
  \<^verbatim>\<open>k1[0], k1[1], k1[2]\<close>, to the velocity, where the classical method adds the
  increments of the velocity, \<^verbatim>\<open>l1[0], l1[1], l1[2]\<close>.
\<close>

theorem integrar_no_es_rk4:
  "inicializar (Fin 0) (Fin 1) (Fin 1) (Fin 0) (Fin 0) (Fin 0) (Fin 0)
     (OsciladorDuffing (Fin 0) (Fin 0) (Fin (- 1)) (Fin 0) (Fin 0) [Fin 1, Fin 1] [Fin 0, Fin 0]) =
     Some osc_acelerado \<and>
   integrar osc_acelerado =
     Inr (osc_acelerado\<lparr>x1_o := [Fin 0, Fin 0], x2_o := [Fin 0, Fin 0],
                        y1_o := [Fin 0, Fin 1], y2_o := [Fin 0, Fin 0]\<rparr>, None) \<and>
   rk4_clasico osc_acelerado (Fin 1) (Fin 0) (Fin 0, Fin 0, Fin 0, Fin 0) =
     (Fin (1 / 2), Fin 0, Fin 1, Fin 0)"
  by (simp add: osc_acelerado_inicializar)
    (simp add: integrar_def integrar_desde.simps paso_rk4_def f1_def f2_def en_rango_def
      no_finito_def Let_def osc_acelerado_def rk4_clasico_def derivada_def vmas_def vpor_def
      ventre_def)

end
